theory Spec2Isabelle
  imports Complex_Main "HOL-Library.Sublist"
begin

section \<open>JavaScript values\<close>

text \<open>
  The relay route (\<^verbatim>\<open>src/app/api/stripe/call-stripe-tool/route.ts\<close>) is written over
  values of type \<^verbatim>\<open>any\<close>: the parsed JSON body of the request and the objects the
  payments SDK returns. They are modelled as one type of dynamic values: the JSON values
  and \<^verbatim>\<open>undefined\<close>.

  A number is \<^verbatim>\<open>NaN\<close>, an infinity, or the rational value of a finite double; every
  rational is admitted as a number. The conversion of a string to a number is a function
  of the runtime and a parameter of the model. The sign of zero is not modelled.
\<close>

datatype jsnum = NaN | PosInf | NegInf | Fin rat

datatype jsval =
    JUndefined
  | JNull
  | JBool bool
  | JNum jsnum
  | JStr string
  | JArr "jsval list"
  | JObj "(string \<times> jsval) list"

text \<open>\<^verbatim>\<open>!!v\<close>: the values that count as true in a condition.\<close>

fun truthy :: "jsval \<Rightarrow> bool" where
  "truthy JUndefined = False"
| "truthy JNull = False"
| "truthy (JBool b) = b"
| "truthy (JNum NaN) = False"
| "truthy (JNum (Fin q)) = (q \<noteq> 0)"
| "truthy (JNum _) = True"
| "truthy (JStr s) = (s \<noteq> [])"
| "truthy (JArr _) = True"
| "truthy (JObj _) = True"

text \<open>\<^verbatim>\<open>a || b\<close>\<close>

definition js_or :: "jsval \<Rightarrow> jsval \<Rightarrow> jsval" where
  "js_or a b = (if truthy a then a else b)"

fun nullish :: "jsval \<Rightarrow> bool" where
  "nullish JUndefined = True"
| "nullish JNull = True"
| "nullish _ = False"

text \<open>\<^verbatim>\<open>typeof v === 'string'\<close>\<close>

fun is_string :: "jsval \<Rightarrow> bool" where
  "is_string (JStr _) = True"
| "is_string _ = False"

text \<open>
  \<^verbatim>\<open>a === b\<close>. Arrays and objects are compared by reference; the two sides of every
  comparison in the route come from different sources (the request, a literal, the SDK),
  so two arrays or two objects are never the same reference.
\<close>

fun strict_eq :: "jsval \<Rightarrow> jsval \<Rightarrow> bool" where
  "strict_eq (JNum a) b = (b = JNum a \<and> a \<noteq> NaN)"
| "strict_eq (JArr _) b = False"
| "strict_eq (JObj _) b = False"
| "strict_eq a b = (a = b)"

text \<open>
  \<^verbatim>\<open>v.k\<close> on a value that is neither \<^verbatim>\<open>null\<close> nor \<^verbatim>\<open>undefined\<close>: the own property of
  an object, the \<^verbatim>\<open>length\<close> of an array or a string, and \<^verbatim>\<open>undefined\<close> otherwise.
  Inherited members (\<^verbatim>\<open>constructor\<close>, \<^verbatim>\<open>toString\<close>, the array methods) are left out:
  the route reads none of them by name. A string's length is counted in characters of
  the model, which is JavaScript's count on ASCII text.
\<close>

fun js_prop :: "jsval \<Rightarrow> string \<Rightarrow> jsval" where
  "js_prop (JObj kvs) k = (case map_of kvs k of Some v \<Rightarrow> v | None \<Rightarrow> JUndefined)"
| "js_prop (JArr xs) k =
     (if k = ''length'' then JNum (Fin (of_nat (length xs))) else JUndefined)"
| "js_prop (JStr s) k =
     (if k = ''length'' then JNum (Fin (of_nat (length s))) else JUndefined)"
| "js_prop _ k = JUndefined"

text \<open>\<^verbatim>\<open>v[0]\<close> on a value that is neither \<^verbatim>\<open>null\<close> nor \<^verbatim>\<open>undefined\<close>.\<close>

fun at0 :: "jsval \<Rightarrow> jsval" where
  "at0 (JArr xs) = (case xs of [] \<Rightarrow> JUndefined | x # _ \<Rightarrow> x)"
| "at0 (JStr s) = (case s of [] \<Rightarrow> JUndefined | c # _ \<Rightarrow> JStr [c])"
| "at0 (JObj kvs) = js_prop (JObj kvs) ''0''"
| "at0 _ = JUndefined"

text \<open>\<^verbatim>\<open>v?.k\<close>\<close>

definition opt_prop :: "jsval \<Rightarrow> string \<Rightarrow> jsval" where
  "opt_prop v k = (if nullish v then JUndefined else js_prop v k)"


text \<open>
  Converting a value to text, or an object to a number, goes through the value's
  \<^verbatim>\<open>toString\<close>. On a value parsed from JSON this throws a \<^verbatim>\<open>TypeError\<close> in one case:
  an object with an own property \<^verbatim>\<open>toString\<close>, which hides the inherited method and
  is not a function. An array is joined from the texts of its elements, so it throws
  when one of them does. \<open>stringifiable v\<close> says that the conversion of \<open>v\<close> does not
  throw.
\<close>

fun stringifiable :: "jsval \<Rightarrow> bool" where
  "stringifiable (JObj kvs) = (map_of kvs ''toString'' = None)"
| "stringifiable (JArr xs) = list_all stringifiable xs"
| "stringifiable _ = True"


section \<open>getStatusBadge\<close>

text \<open>
  Both pages look the status up in an object literal, \<^verbatim>\<open>statusColors[status]\<close>. Such a
  lookup finds the literal's own property, or else a member that every object inherits
  from \<^verbatim>\<open>Object.prototype\<close> (a function, or for \<^verbatim>\<open>__proto__\<close> an object), or
  else \<^verbatim>\<open>undefined\<close>.
\<close>

datatype looked_up = Own string | Inherited string | Missing

definition Object_prototype_members :: "string list" where
  "Object_prototype_members =
     [''constructor'', ''hasOwnProperty'', ''isPrototypeOf'', ''propertyIsEnumerable'',
      ''toLocaleString'', ''toString'', ''valueOf'', ''__proto__'',
      ''__defineGetter__'', ''__defineSetter__'', ''__lookupGetter__'', ''__lookupSetter__'']"

definition lookup_literal :: "(string \<times> string) list \<Rightarrow> string \<Rightarrow> looked_up" where
  "lookup_literal obj k =
     (case map_of obj k of
        Some v \<Rightarrow> Own v
      | None \<Rightarrow> if k \<in> set Object_prototype_members then Inherited k else Missing)"

text \<open>\<^verbatim>\<open>a || b\<close> on the results of two lookups: functions and objects count as true.\<close>

fun or_else :: "looked_up \<Rightarrow> looked_up \<Rightarrow> looked_up" where
  "or_else (Own v) b = (if v \<noteq> [] then Own v else b)"
| "or_else (Inherited k) b = Inherited k"
| "or_else Missing b = b"

text \<open>\<^verbatim>\<open>s.replace('_', ' ')\<close> replaces the first underscore only.\<close>

fun replace_first :: "char \<Rightarrow> char \<Rightarrow> string \<Rightarrow> string" where
  "replace_first a b [] = []"
| "replace_first a b (c # cs) = (if c = a then b # cs else c # replace_first a b cs)"

text \<open>
  The rendered \<^verbatim>\<open>span\<close>: its class name, a template literal of fixed text and the
  looked-up colour class, and its text.
\<close>

datatype class_part = Text string | Interp looked_up

record badge =
  className :: "class_part list"
  children :: string

text \<open>The list page, \<^verbatim>\<open>src/app/(dashboard)/outbound/page.tsx\<close>.\<close>

definition statusColors :: "(string \<times> string) list" where
  "statusColors =
     [(''pending'', ''bg-yellow-100 text-yellow-800 dark:bg-yellow-900/20 dark:text-yellow-300''),
      (''in_progress'', ''bg-blue-100 text-blue-800 dark:bg-blue-900/20 dark:text-blue-300''),
      (''completed'', ''bg-green-100 text-green-800 dark:bg-green-900/20 dark:text-green-300''),
      (''failed'', ''bg-red-100 text-red-800 dark:bg-red-900/20 dark:text-red-300''),
      (''cancelled'', ''bg-gray-100 text-gray-800 dark:bg-gray-900/20 dark:text-gray-300'')]"

definition getStatusBadge :: "string \<Rightarrow> badge" where
  "getStatusBadge status =
     \<lparr>className =
        [Text ''inline-flex items-center rounded-full px-2 py-1 text-xs font-medium '',
         Interp (or_else (lookup_literal statusColors status)
                         (lookup_literal statusColors ''pending''))],
      children = replace_first (CHR ''_'') (CHR '' '') status\<rparr>"

text \<open>The detail page, \<^verbatim>\<open>src/unnamed/part_000\<close>.\<close>

definition statusColors_detail :: "(string \<times> string) list" where
  "statusColors_detail =
     [(''pending'', ''bg-yellow-100 text-yellow-800 dark:bg-yellow-900/20 dark:text-yellow-300''),
      (''initiated'', ''bg-blue-100 text-blue-800 dark:bg-blue-900/20 dark:text-blue-300''),
      (''in_progress'', ''bg-blue-100 text-blue-800 dark:bg-blue-900/20 dark:text-blue-300''),
      (''completed'', ''bg-green-100 text-green-800 dark:bg-green-900/20 dark:text-green-300''),
      (''failed'', ''bg-red-100 text-red-800 dark:bg-red-900/20 dark:text-red-300''),
      (''cancelled'', ''bg-gray-100 text-gray-800 dark:bg-gray-900/20 dark:text-gray-300''),
      (''voicemail'', ''bg-purple-100 text-purple-800 dark:bg-purple-900/20 dark:text-purple-300'')]"

definition getStatusBadge_detail :: "string \<Rightarrow> badge" where
  "getStatusBadge_detail status =
     \<lparr>className =
        [Text ''inline-flex items-center rounded-full px-2 py-1 text-xs font-medium '',
         Interp (or_else (lookup_literal statusColors_detail status)
                         (lookup_literal statusColors_detail ''pending''))],
      children = replace_first (CHR ''_'') (CHR '' '') status\<rparr>"


section \<open>Exceptions, external capabilities and the call log\<close>

text \<open>
  A thrown value is known by its \<^verbatim>\<open>message\<close> property, the only part of it the route
  reads. Reading a property of \<^verbatim>\<open>null\<close> or \<^verbatim>\<open>undefined\<close>, and calling a method that a
  value does not have, throw a \<^verbatim>\<open>TypeError\<close>; the engine's wording of its message is
  not modelled.
\<close>

datatype js_error = Thrown (message: jsval)

definition type_error :: js_error where
  "type_error = Thrown (JStr ''TypeError'')"

text \<open>The object literals the route passes to the SDK.\<close>

record refund_args =
  rf_charge :: jsval
  rf_amount :: jsval
  rf_reason :: jsval
  rf_metadata :: jsval

record list_args =
  ls_customer :: jsval
  ls_limit :: nat

text \<open>
  \<^verbatim>\<open>captureParams\<close> is \<^verbatim>\<open>{}\<close> or \<^verbatim>\<open>{ amount_to_capture: n }\<close>.
\<close>

type_synonym capture_params = "jsnum option"

text \<open>
  The tool call handed to the toolkit. \<^verbatim>\<open>tc_arguments\<close> holds the value that
  \<^verbatim>\<open>JSON.stringify\<close> is applied to, \<^verbatim>\<open>tc_id\<close> the clock reading in
  \<^verbatim>\<open>call_${Date.now()}\<close>.
\<close>

record tool_call =
  tc_id :: nat
  tc_name :: jsval
  tc_arguments :: jsval

datatype call =
    RefundsCreate refund_args
  | PaymentIntentsRetrieve jsval
  | PaymentIntentsCapture jsval capture_params
  | ChargesList list_args
  | FindCustomerByIdentifier jsval
  | FindPaymentByIdentifier jsval
  | HandleToolCall tool_call

text \<open>
  Everything outside the route is a parameter: the payments SDK, the two lookups of
  \<^verbatim>\<open>@/lib/stripe\<close>, the agent toolkit, the environment variable, the clock, and the
  runtime's conversion of a string to a number (\<^verbatim>\<open>Number\<close> applied to a string). A
  capability reads and changes a world \<open>'w\<close> that the route cannot see, and either returns
  a value or rejects with an exception. The toolkit's constructor and \<^verbatim>\<open>getTools\<close> only
  build local objects; the catalog's entries are objects.
\<close>

type_synonym 'w capability = "'w \<Rightarrow> (js_error + jsval) \<times> 'w"

record 'w env =
  STRIPE_SECRET_KEY :: jsval
  Date_now :: nat
  runtime_StringToNumber :: "string \<Rightarrow> jsnum"
  toolkit_getTools :: "jsval list"
  toolkit_handleToolCall :: "tool_call \<Rightarrow> 'w capability"
  stripe_refunds_create :: "refund_args \<Rightarrow> 'w capability"
  stripe_paymentIntents_retrieve :: "jsval \<Rightarrow> 'w capability"
  stripe_paymentIntents_capture :: "jsval \<Rightarrow> capture_params \<Rightarrow> 'w capability"
  stripe_charges_list :: "list_args \<Rightarrow> 'w capability"
  lib_findCustomerByIdentifier :: "jsval \<Rightarrow> 'w capability"
  lib_findPaymentByIdentifier :: "jsval \<Rightarrow> 'w capability"

text \<open>
  The state of a request: the outside world and the log of the capabilities invoked so
  far, oldest first. An action runs on a state and ends with a value or an exception.
\<close>

type_synonym 'w state = "'w \<times> call list"

type_synonym ('w, 'a) action = "'w state \<Rightarrow> (js_error + 'a) \<times> 'w state"

definition ret :: "'a \<Rightarrow> ('w, 'a) action" where
  "ret x = (\<lambda>s. (Inr x, s))"

definition throw :: "js_error \<Rightarrow> ('w, 'a) action" where
  "throw e = (\<lambda>s. (Inl e, s))"

text \<open>\<^verbatim>\<open>const x = await m; f(x)\<close>: an exception of \<open>m\<close> skips \<open>f\<close>.\<close>

definition await :: "('w, 'a) action \<Rightarrow> ('a \<Rightarrow> ('w, 'b) action) \<Rightarrow> ('w, 'b) action" where
  "await m f = (\<lambda>s. case m s of (Inl e, s') \<Rightarrow> (Inl e, s') | (Inr x, s') \<Rightarrow> f x s')"

text \<open>\<^verbatim>\<open>try { m } catch (error) { h(error) }\<close>\<close>

definition try_catch :: "('w, 'a) action \<Rightarrow> (js_error \<Rightarrow> 'a) \<Rightarrow> 'w state \<Rightarrow> 'a \<times> 'w state" where
  "try_catch m h = (\<lambda>s. case m s of (Inl e, s') \<Rightarrow> (h e, s') | (Inr x, s') \<Rightarrow> (x, s'))"

text \<open>Invoking a capability runs it on the world and appends the call to the log.\<close>

definition invoke :: "call \<Rightarrow> 'w capability \<Rightarrow> ('w, jsval) action" where
  "invoke c f = (\<lambda>(w, calls). case f w of (r, w') \<Rightarrow> (r, (w', calls @ [c])))"

text \<open>\<^verbatim>\<open>v.k\<close>, which throws on \<^verbatim>\<open>null\<close> and \<^verbatim>\<open>undefined\<close>.\<close>

definition get :: "jsval \<Rightarrow> string \<Rightarrow> ('w, jsval) action" where
  "get v k = (if nullish v then throw type_error else ret (js_prop v k))"


section \<open>Responses\<close>

text \<open>
  A field of a response body is a value, or the text of a template literal: its pieces
  of text and the values interpolated between them. The text that a value is converted
  to is not modelled; that the conversion can throw is.
\<close>

datatype tpart = Lit string | Sub jsval

datatype content = Val jsval | Tmpl "tpart list"

fun part_ok :: "tpart \<Rightarrow> bool" where
  "part_ok (Lit _) = True"
| "part_ok (Sub v) = stringifiable v"

text \<open>Evaluating a template literal: it throws when an interpolated value does.\<close>

definition template :: "tpart list \<Rightarrow> ('w, content) action" where
  "template parts = (if list_all part_ok parts then ret (Tmpl parts) else throw type_error)"

record response =
  status :: nat
  headers :: "(string \<times> string) list"
  body :: "(string \<times> content) list"

text \<open>
  \<^verbatim>\<open>NextResponse.json(body, { status, headers })\<close>: the status is 200 and there are no
  headers of the route's own unless given.
\<close>

definition NextResponse_json ::
  "(string \<times> content) list \<Rightarrow> nat option \<Rightarrow> (string \<times> string) list option \<Rightarrow> response" where
  "NextResponse_json b st hs =
     \<lparr>status = (case st of None \<Rightarrow> 200 | Some n \<Rightarrow> n),
      headers = (case hs of None \<Rightarrow> [] | Some h \<Rightarrow> h),
      body = b\<rparr>"

definition corsHeaders :: "(string \<times> string) list" where
  "corsHeaders =
     [(''Access-Control-Allow-Origin'', ''*''),
      (''Access-Control-Allow-Methods'', ''POST, OPTIONS''),
      (''Access-Control-Allow-Headers'', ''Content-Type, Authorization'')]"


section \<open>handleRefundRequest\<close>

text \<open>
  \<^verbatim>\<open>await stripe.refunds.create({ charge, amount, reason: reason ||
  'requested_by_customer', metadata: metadata || {} })\<close>
\<close>

definition create_refund ::
  "'w env \<Rightarrow> jsval \<Rightarrow> jsval \<Rightarrow> jsval \<Rightarrow> jsval \<Rightarrow> ('w, jsval) action" where
  "create_refund env chargeId amount reason metadata =
     (let args = \<lparr>rf_charge = chargeId, rf_amount = amount,
                  rf_reason = js_or reason (JStr ''requested_by_customer''),
                  rf_metadata = js_or metadata (JObj [])\<rparr>
      in invoke (RefundsCreate args) (stripe_refunds_create env args))"

text \<open>
  The body of the \<^verbatim>\<open>try\<close> block. The destructuring of \<^verbatim>\<open>parameters\<close> in its first
  line throws when \<^verbatim>\<open>parameters\<close> is \<^verbatim>\<open>null\<close> or \<^verbatim>\<open>undefined\<close>; past it, reading a
  property of \<^verbatim>\<open>parameters\<close> cannot throw.
\<close>

definition handleRefundRequest_try :: "'w env \<Rightarrow> jsval \<Rightarrow> ('w, response) action" where
  "handleRefundRequest_try env parameters =
    (if nullish parameters then throw type_error else
     let customerIdentifier = js_prop parameters ''customerIdentifier'';
         orderIdentifier = js_prop parameters ''orderIdentifier'';
         amount = js_prop parameters ''amount'';
         reason = js_prop parameters ''reason'';
         metadata = js_prop parameters ''metadata''
     in
     if truthy (js_prop parameters ''charge_id'') then
       await (create_refund env (js_prop parameters ''charge_id'') (js_prop parameters ''amount'')
                (js_prop parameters ''reason'') (js_prop parameters ''metadata''))
         (\<lambda>refund. ret (NextResponse_json [(''result'', Val refund)] None (Some corsHeaders)))
     else if truthy (js_prop parameters ''payment_intent_id'') then
       await (invoke (PaymentIntentsRetrieve (js_prop parameters ''payment_intent_id''))
                (stripe_paymentIntents_retrieve env (js_prop parameters ''payment_intent_id'')))
         (\<lambda>paymentIntent.
       await (get paymentIntent ''latest_charge'')
         (\<lambda>latest_charge.
       if \<not> truthy latest_charge then
         ret (NextResponse_json
                [(''error'', Val (JStr ''Payment intent has no charge to refund''))]
                (Some 400) (Some corsHeaders))
       else
       await (if is_string latest_charge then ret latest_charge else get latest_charge ''id'')
         (\<lambda>chargeId.
       await (create_refund env chargeId (js_prop parameters ''amount'')
                (js_prop parameters ''reason'') (js_prop parameters ''metadata''))
         (\<lambda>refund. ret (NextResponse_json [(''result'', Val refund)] None (Some corsHeaders))))))
     else
     let invalid_input =
           NextResponse_json
             [(''error'', Val (JStr ''Please provide either charge_id, payment_intent_id, customerIdentifier, or orderIdentifier''))]
             (Some 400) (Some corsHeaders)
     in
     if truthy (js_or customerIdentifier orderIdentifier) then
       await (if truthy orderIdentifier
              then invoke (FindPaymentByIdentifier orderIdentifier)
                     (lib_findPaymentByIdentifier env orderIdentifier)
              else ret JNull)
         (\<lambda>paymentInfo.
       if \<not> truthy paymentInfo \<and> truthy customerIdentifier then
         await (invoke (FindCustomerByIdentifier customerIdentifier)
                  (lib_findCustomerByIdentifier env customerIdentifier))
           (\<lambda>customer.
         if \<not> truthy customer then
           await (template [Lit ''Customer not found: '', Sub customerIdentifier])
             (\<lambda>text. ret (NextResponse_json [(''error'', text)]
                           (Some 404) (Some corsHeaders)))
         else
         let args = \<lparr>ls_customer = js_prop customer ''id'', ls_limit = 10\<rparr> in
         await (invoke (ChargesList args) (stripe_charges_list env args))
           (\<lambda>charges.
         await (get charges ''data'')
           (\<lambda>data.
         await (get data ''length'')
           (\<lambda>data_length.
         if strict_eq data_length (JNum (Fin 0)) then
           ret (NextResponse_json
                  [(''error'', Val (JStr ''No charges found for this customer''))]
                  (Some 404) (Some corsHeaders))
         else
         let latestCharge = at0 data in
         await (get latestCharge ''id'')
           (\<lambda>latestCharge_id.
         await (create_refund env latestCharge_id amount reason metadata)
           (\<lambda>refund.
         await (template [Lit ''Refund processed for customer '',
                          Sub (js_prop customer ''id''),
                          Lit '' on charge '', Sub latestCharge_id])
           (\<lambda>text.
         ret (NextResponse_json [(''result'', Val refund), (''message'', text)]
                None (Some corsHeaders)))))))))
       else if truthy paymentInfo then
         let latest_charge = opt_prop (js_prop paymentInfo ''paymentIntent'') ''latest_charge'';
             chargeId =
               js_or (opt_prop (js_prop paymentInfo ''charge'') ''id'')
                 (if truthy latest_charge
                  then (if is_string latest_charge then latest_charge
                        else js_prop latest_charge ''id'')
                  else JNull)
         in
         if \<not> truthy chargeId then
           ret (NextResponse_json
                  [(''error'', Val (JStr ''Could not find charge to refund''))]
                  (Some 400) (Some corsHeaders))
         else
         await (create_refund env chargeId amount reason metadata)
           (\<lambda>refund.
         await (template [Lit ''Refund processed for order '',
                          Sub (js_or orderIdentifier (JStr ''N/A''))])
           (\<lambda>text.
         ret (NextResponse_json [(''result'', Val refund), (''message'', text)]
                None (Some corsHeaders))))
       else ret invalid_input)
     else ret invalid_input)"

text \<open>The \<^verbatim>\<open>catch\<close> block turns every exception into a 500 response.\<close>

definition handleRefundRequest :: "'w env \<Rightarrow> jsval \<Rightarrow> 'w state \<Rightarrow> response \<times> 'w state" where
  "handleRefundRequest env parameters =
     try_catch (handleRefundRequest_try env parameters)
       (\<lambda>error. NextResponse_json
                  [(''error'', Val (js_or (message error) (JStr ''Failed to process refund'')))]
                  (Some 500) (Some corsHeaders))"


section \<open>\<^verbatim>\<open>Number\<close> and \<^verbatim>\<open>Math.round\<close>\<close>

text \<open>
  The number that a value converts to when the conversion does not throw; \<open>f\<close> is the
  runtime's conversion of a string. An array is converted through its text: the text of
  the empty array is empty, the text of an array of one element is the text of that
  element (empty for \<^verbatim>\<open>null\<close> and \<^verbatim>\<open>undefined\<close>, and for a number a text that converts
  back to the number), the text of a longer array has a comma, which no numeric literal
  has. The flag says that the value is the element of an array.
\<close>

fun to_number :: "(string \<Rightarrow> jsnum) \<Rightarrow> bool \<Rightarrow> jsval \<Rightarrow> jsnum" where
  "to_number f e JUndefined = (if e then f [] else NaN)"
| "to_number f e JNull = (if e then f [] else Fin 0)"
| "to_number f e (JBool b) =
     (if e then f (if b then ''true'' else ''false'') else Fin (if b then 1 else 0))"
| "to_number f e (JNum n) = n"
| "to_number f e (JStr s) = f s"
| "to_number f e (JObj _) = f ''[object Object]''"
| "to_number f e (JArr []) = f []"
| "to_number f e (JArr [x]) = to_number f True x"
| "to_number f e (JArr (x # y # zs)) = NaN"

text \<open>\<^verbatim>\<open>Number(v)\<close>\<close>

definition Number :: "'w env \<Rightarrow> jsval \<Rightarrow> ('w, jsnum) action" where
  "Number env v =
     (if stringifiable v then ret (to_number (runtime_StringToNumber env) False v)
      else throw type_error)"

text \<open>\<^verbatim>\<open>Math.round(v)\<close>: the nearest integer of the number of \<open>v\<close>, a half rounded up.\<close>

fun round_num :: "jsnum \<Rightarrow> jsnum" where
  "round_num (Fin q) = Fin (of_int \<lfloor>q + 1 / 2\<rfloor>)"
| "round_num n = n"

definition Math_round :: "'w env \<Rightarrow> jsval \<Rightarrow> ('w, jsnum) action" where
  "Math_round env v = await (Number env v) (\<lambda>n. ret (round_num n))"

text \<open>\<^verbatim>\<open>typeof v === 'number'\<close> and \<^verbatim>\<open>Number.isNaN(v)\<close>\<close>

fun is_number :: "jsval \<Rightarrow> bool" where
  "is_number (JNum _) = True"
| "is_number _ = False"

definition Number_isNaN :: "jsval \<Rightarrow> bool" where
  "Number_isNaN v = (v = JNum NaN)"


section \<open>handleCaptureRequest\<close>

text \<open>
  \<^verbatim>\<open>parameters.payment_intent_id || parameters.paymentIntentId || parameters.intent_id
  || parameters.id\<close>
\<close>

definition paymentIntentId_of :: "jsval \<Rightarrow> jsval" where
  "paymentIntentId_of parameters =
     js_or (js_or (js_or (js_prop parameters ''payment_intent_id'')
                         (js_prop parameters ''paymentIntentId''))
                  (js_prop parameters ''intent_id''))
           (js_prop parameters ''id'')"

text \<open>
  The body of the \<^verbatim>\<open>try\<close> block. Its first read of a property of \<^verbatim>\<open>parameters\<close>
  throws when \<^verbatim>\<open>parameters\<close> is \<^verbatim>\<open>null\<close> or \<^verbatim>\<open>undefined\<close>.
\<close>

definition handleCaptureRequest_try :: "'w env \<Rightarrow> jsval \<Rightarrow> ('w, response) action" where
  "handleCaptureRequest_try env parameters =
    (if nullish parameters then throw type_error else
     let paymentIntentId = paymentIntentId_of parameters in
     if \<not> truthy paymentIntentId then
       ret (NextResponse_json
              [(''error'', Val (JStr ''payment_intent_id is required to capture a payment''))]
              (Some 400) (Some corsHeaders))
     else
     await (if is_number (js_prop parameters ''amount'') then ret (js_prop parameters ''amount'')
            else if truthy (js_prop parameters ''amount'')
                 then await (Number env (js_prop parameters ''amount'')) (\<lambda>n. ret (JNum n))
                 else ret JUndefined)
       (\<lambda>amount.
     await (if truthy amount \<and> \<not> Number_isNaN amount
            then await (Math_round env amount) (\<lambda>n. ret (Some n))
            else ret None)
       (\<lambda>captureParams.
     await (invoke (PaymentIntentsCapture paymentIntentId captureParams)
              (stripe_paymentIntents_capture env paymentIntentId captureParams))
       (\<lambda>captured.
     ret (NextResponse_json [(''result'', Val captured)] None (Some corsHeaders))))))"

definition handleCaptureRequest :: "'w env \<Rightarrow> jsval \<Rightarrow> 'w state \<Rightarrow> response \<times> 'w state" where
  "handleCaptureRequest env parameters =
     try_catch (handleCaptureRequest_try env parameters)
       (\<lambda>error. NextResponse_json
                  [(''error'', Val (js_or (message error) (JStr ''Failed to capture payment intent'')))]
                  (Some 500) (Some corsHeaders))"


section \<open>POST\<close>

text \<open>\<^verbatim>\<open>s.includes(needle)\<close> on a string: \<open>needle\<close> occurs in \<open>s\<close>.\<close>

fun includes_str :: "string \<Rightarrow> string \<Rightarrow> bool" where
  "includes_str [] needle = (needle = [])"
| "includes_str (c # cs) needle = (prefix needle (c # cs) \<or> includes_str cs needle)"

text \<open>
  \<^verbatim>\<open>v.includes(needle)\<close> on a value that is neither \<^verbatim>\<open>null\<close> nor \<^verbatim>\<open>undefined\<close>: the
  substring test of a string, the membership test of an array, and a \<^verbatim>\<open>TypeError\<close> on
  every other value, which has no such method.
\<close>

fun js_includes :: "jsval \<Rightarrow> string \<Rightarrow> ('w, bool) action" where
  "js_includes (JStr s) needle = ret (includes_str s needle)"
| "js_includes (JArr xs) needle = ret (JStr needle \<in> set xs)"
| "js_includes _ needle = throw type_error"

text \<open>\<^verbatim>\<open>await request.json()\<close>: the parsed body, or the exception of the parser.\<close>

definition request_json :: "js_error + jsval \<Rightarrow> ('w, jsval) action" where
  "request_json r = (case r of Inl e \<Rightarrow> throw e | Inr v \<Rightarrow> ret v)"

text \<open>\<^verbatim>\<open>return await handler(parameters)\<close>: the handlers catch their own exceptions.\<close>

definition returning :: "('w state \<Rightarrow> response \<times> 'w state) \<Rightarrow> ('w, response) action" where
  "returning h = (\<lambda>s. case h s of (r, s') \<Rightarrow> (Inr r, s'))"

definition POST_try :: "'w env \<Rightarrow> js_error + jsval \<Rightarrow> ('w, response) action" where
  "POST_try env request =
    (let secretKey = STRIPE_SECRET_KEY env in
     if \<not> truthy secretKey then
       ret (NextResponse_json
              [(''error'', Val (JStr ''STRIPE_SECRET_KEY not configured''))]
              (Some 500) (Some corsHeaders))
     else
     await (request_json request)
       (\<lambda>req_body.
     await (get req_body ''toolName'')
       (\<lambda>toolName.
     let parameters = js_prop req_body ''parameters'' in
     if \<not> truthy toolName then
       ret (NextResponse_json
              [(''error'', Val (JStr ''toolName is required''))]
              (Some 400) (Some corsHeaders))
     else if toolName = JStr ''refunds_create'' \<or> toolName = JStr ''create_refund''
             \<or> toolName = JStr ''stripe_refunds_create'' then
       returning (handleRefundRequest env parameters)
     else
     await (if toolName = JStr ''paymentIntents_capture''
               \<or> toolName = JStr ''capture_payment_intent''
               \<or> toolName = JStr ''stripe_paymentIntents_capture''
               \<or> toolName = JStr ''capturePaymentIntent''
               \<or> toolName = JStr ''stripe_capture_payment_intent''
            then ret True
            else if nullish toolName then ret False
            else js_includes toolName ''capture_payment_intent'')
       (\<lambda>is_capture.
     if is_capture then returning (handleCaptureRequest env parameters)
     else
     let tools = toolkit_getTools env;
         tool = (case find (\<lambda>t. strict_eq (js_prop t ''name'') toolName) tools of
                   None \<Rightarrow> JUndefined
                 | Some t \<Rightarrow> t)
     in
     if \<not> truthy tool then
       await (js_includes toolName ''refund'')
         (\<lambda>has_refund.
       if has_refund then returning (handleRefundRequest env parameters)
       else
       await (js_includes toolName ''capture'')
         (\<lambda>has_capture.
       if has_capture then returning (handleCaptureRequest env parameters)
       else
       await (template [Lit ''Tool '', Sub toolName, Lit '' not found''])
         (\<lambda>text. ret (NextResponse_json [(''error'', text)] (Some 404) None))))
     else
     let toolCall = \<lparr>tc_id = Date_now env, tc_name = toolName,
                      tc_arguments = js_or parameters (JObj [])\<rparr>
     in
     await (invoke (HandleToolCall toolCall) (toolkit_handleToolCall env toolCall))
       (\<lambda>result.
     await (get result ''content'')
       (\<lambda>toolResult.
     ret (NextResponse_json [(''result'', Val toolResult)] None (Some corsHeaders))))))))"

definition POST :: "'w env \<Rightarrow> js_error + jsval \<Rightarrow> 'w state \<Rightarrow> response \<times> 'w state" where
  "POST env request =
     try_catch (POST_try env request)
       (\<lambda>error. NextResponse_json
                  [(''error'', Val (js_or (message error) (JStr ''Failed to call Stripe tool'')))]
                  (Some 500) (Some corsHeaders))"


section \<open>Predicates on responses\<close>

text \<open>Every response that an action returns satisfies \<open>P\<close>.\<close>

definition all_results :: "(response \<Rightarrow> bool) \<Rightarrow> ('w, response) action \<Rightarrow> bool" where
  "all_results P m = (\<forall>s r s'. m s = (Inr r, s') \<longrightarrow> P r)"

definition has_cors :: "response \<Rightarrow> bool" where
  "has_cors r = (headers r = corsHeaders)"

definition cors_or_tool_not_found :: "response \<Rightarrow> bool" where
  "cors_or_tool_not_found r =
     (has_cors r \<or>
      (\<exists>toolName. r = NextResponse_json
                        [(''error'', Tmpl [Lit ''Tool '', Sub toolName, Lit '' not found''])]
                        (Some 404) None))"


section \<open>A sample environment\<close>

text \<open>
  An environment to run the route on: the world counts the capabilities invoked, every
  capability succeeds, the payment intent has the charge \<^verbatim>\<open>ch_9\<close>, the customer
  \<^verbatim>\<open>cus_1\<close> has the charges \<^verbatim>\<open>ch_1\<close> and \<^verbatim>\<open>ch_2\<close>, no order is known and the catalog
  is empty. Its conversion of strings is a table for the examples below, not the
  runtime's conversion: it knows the literal \<^verbatim>\<open>150.7\<close>, whose nearest double is
  5302284873786982 / 35184372088832, and takes every other string to \<^verbatim>\<open>NaN\<close>, which is
  right for the words that the examples use.
\<close>

definition sample_StringToNumber :: "string \<Rightarrow> jsnum" where
  "sample_StringToNumber s =
     (if s = ''150.7'' then Fin (5302284873786982 / 35184372088832) else NaN)"

definition sample_env :: "nat env" where
  "sample_env =
     \<lparr>STRIPE_SECRET_KEY = JStr ''sk_test'',
      Date_now = 0,
      runtime_StringToNumber = sample_StringToNumber,
      toolkit_getTools = [],
      toolkit_handleToolCall = (\<lambda>c w. (Inr (JObj [(''content'', JStr ''done'')]), Suc w)),
      stripe_refunds_create =
        (\<lambda>a w. (Inr (JObj [(''id'', JStr ''re_1''), (''charge'', rf_charge a)]), Suc w)),
      stripe_paymentIntents_retrieve =
        (\<lambda>i w. (Inr (JObj [(''id'', i), (''latest_charge'', JStr ''ch_9'')]), Suc w)),
      stripe_paymentIntents_capture =
        (\<lambda>i p w. (Inr (JObj [(''id'', i), (''status'', JStr ''succeeded'')]), Suc w)),
      stripe_charges_list =
        (\<lambda>a w. (Inr (JObj [(''data'', JArr [JObj [(''id'', JStr ''ch_1'')],
                                             JObj [(''id'', JStr ''ch_2'')]])]), Suc w)),
      lib_findCustomerByIdentifier = (\<lambda>i w. (Inr (JObj [(''id'', JStr ''cus_1'')]), Suc w)),
      lib_findPaymentByIdentifier = (\<lambda>i w. (Inr JNull, Suc w))\<rparr>"


section \<open>Basic facts\<close>

lemma truthy_prop_not_nullish: "truthy (js_prop v k) \<Longrightarrow> \<not> nullish v"
  by (cases v) auto

lemma truthy_string: "truthy (JStr s) \<longleftrightarrow> s \<noteq> []"
  by simp

lemma includes_str_sublist: "includes_str s needle \<longleftrightarrow> sublist needle s"
  by (induction s) (auto simp: sublist_Cons_right)

lemma find_None: "\<forall>x\<in>set xs. \<not> P x \<Longrightarrow> find P xs = None"
  by (induction xs) auto

lemma not_stringifiable: "\<not> stringifiable v \<Longrightarrow> truthy v \<and> \<not> is_number v \<and> \<not> nullish v"
  by (cases v) auto

lemmas run_defs =
  try_catch_def await_def invoke_def ret_def throw_def get_def returning_def request_json_def
  template_def

lemmas refund_defs =
  handleRefundRequest_def handleRefundRequest_try_def create_refund_def run_defs Let_def

lemmas capture_defs =
  handleCaptureRequest_def handleCaptureRequest_try_def Number_def Math_round_def run_defs Let_def


section \<open>The refund handler\<close>

text \<open>
  Without parameters (\<^verbatim>\<open>null\<close> or \<^verbatim>\<open>undefined\<close>) the destructuring throws, and the
  handler answers 500 with the message of the exception; nothing is invoked.
\<close>

lemma handleRefundRequest_without_parameters:
  assumes "nullish parameters"
  shows "handleRefundRequest env parameters s =
           (NextResponse_json [(''error'', Val (message type_error))]
              (Some 500) (Some corsHeaders), s)"
  using assms by (simp add: refund_defs type_error_def js_or_def)

text \<open>
  C1. A parameter set that contains \<^verbatim>\<open>charge_id\<close>, that is, whose \<^verbatim>\<open>charge_id\<close> holds a
  value that counts as true (for a string: a non-empty one; this is the route's own test
  of presence), makes \<^verbatim>\<open>handleRefundRequest\<close> invoke exactly one capability: the
  creation of a refund whose charge is the value of \<^verbatim>\<open>charge_id\<close>, whose amount is the
  value of \<^verbatim>\<open>amount\<close>, and whose reason and metadata are those of the parameters or
  else \<^verbatim>\<open>requested_by_customer\<close> and the empty object. No payment intent is retrieved
  and no order or customer is looked up, whatever other identifiers the parameters hold;
  when the creation succeeds the response is the refund with status 200.
\<close>

theorem refund_charge_id_first:
  assumes "truthy (js_prop parameters ''charge_id'')"
  shows "snd (snd (handleRefundRequest env parameters (w, calls))) =
           calls @ [RefundsCreate
                      \<lparr>rf_charge = js_prop parameters ''charge_id'',
                       rf_amount = js_prop parameters ''amount'',
                       rf_reason = (if truthy (js_prop parameters ''reason'')
                                    then js_prop parameters ''reason''
                                    else JStr ''requested_by_customer''),
                       rf_metadata = (if truthy (js_prop parameters ''metadata'')
                                      then js_prop parameters ''metadata''
                                      else JObj [])\<rparr>]
       \<and> (\<forall>refund w'.
             stripe_refunds_create env
               \<lparr>rf_charge = js_prop parameters ''charge_id'',
                rf_amount = js_prop parameters ''amount'',
                rf_reason = (if truthy (js_prop parameters ''reason'')
                             then js_prop parameters ''reason''
                             else JStr ''requested_by_customer''),
                rf_metadata = (if truthy (js_prop parameters ''metadata'')
                               then js_prop parameters ''metadata''
                               else JObj [])\<rparr> w = (Inr refund, w') \<longrightarrow>
             handleRefundRequest env parameters (w, calls) =
               (NextResponse_json [(''result'', Val refund)] None (Some corsHeaders),
                (w', calls @ [RefundsCreate
                      \<lparr>rf_charge = js_prop parameters ''charge_id'',
                       rf_amount = js_prop parameters ''amount'',
                       rf_reason = (if truthy (js_prop parameters ''reason'')
                                    then js_prop parameters ''reason''
                                    else JStr ''requested_by_customer''),
                       rf_metadata = (if truthy (js_prop parameters ''metadata'')
                                      then js_prop parameters ''metadata''
                                      else JObj [])\<rparr>])))"
  using assms truthy_prop_not_nullish[OF assms]
  by (simp add: refund_defs js_or_def split: prod.splits sum.splits)

theorem refund_charge_id_first_witness:
  "handleRefundRequest sample_env
     (JObj [(''charge_id'', JStr ''ch_5''), (''payment_intent_id'', JStr ''pi_1''),
            (''customerIdentifier'', JStr ''cus_1''), (''orderIdentifier'', JStr ''ord_1''),
            (''amount'', JNum (Fin 250)), (''reason'', JStr ''duplicate'')])
     (0, []) =
   (NextResponse_json
      [(''result'', Val (JObj [(''id'', JStr ''re_1''), (''charge'', JStr ''ch_5'')]))]
      None (Some corsHeaders),
    (1, [RefundsCreate \<lparr>rf_charge = JStr ''ch_5'', rf_amount = JNum (Fin 250),
                         rf_reason = JStr ''duplicate'',
                         rf_metadata = JObj []\<rparr>]))"
  using refund_charge_id_first
    [where parameters = "JObj [(''charge_id'', JStr ''ch_5''), (''payment_intent_id'', JStr ''pi_1''),
            (''customerIdentifier'', JStr ''cus_1''), (''orderIdentifier'', JStr ''ord_1''),
            (''amount'', JNum (Fin 250)), (''reason'', JStr ''duplicate'')]"
       and env = sample_env and w = 0 and calls = "[]"]
  by (simp add: sample_env_def)

text \<open>
  C2. When no \<^verbatim>\<open>charge_id\<close> is given, a \<^verbatim>\<open>payment_intent_id\<close> is, and the payment
  intent retrieved for it has no \<^verbatim>\<open>latest_charge\<close>, \<^verbatim>\<open>handleRefundRequest\<close> answers
  400 with the message that the intent has no charge to refund. The retrieval is the only
  capability invoked: no refund is created.
\<close>

theorem refund_intent_without_charge:
  assumes "\<not> truthy (js_prop parameters ''charge_id'')"
    and "truthy (js_prop parameters ''payment_intent_id'')"
    and "stripe_paymentIntents_retrieve env (js_prop parameters ''payment_intent_id'') w
           = (Inr paymentIntent, w')"
    and "\<not> nullish paymentIntent"
    and "\<not> truthy (js_prop paymentIntent ''latest_charge'')"
  shows "handleRefundRequest env parameters (w, calls) =
           (NextResponse_json
              [(''error'', Val (JStr ''Payment intent has no charge to refund''))]
              (Some 400) (Some corsHeaders),
            (w', calls @ [PaymentIntentsRetrieve (js_prop parameters ''payment_intent_id'')]))"
  using assms truthy_prop_not_nullish[OF assms(2)]
  by (simp add: refund_defs split: prod.splits sum.splits)

theorem refund_intent_without_charge_witness:
  "handleRefundRequest
     (sample_env\<lparr>stripe_paymentIntents_retrieve :=
        (\<lambda>i w. (Inr (JObj [(''id'', i), (''latest_charge'', JNull)]), Suc w))\<rparr>)
     (JObj [(''payment_intent_id'', JStr ''pi_1'')]) (0, []) =
   (NextResponse_json
      [(''error'', Val (JStr ''Payment intent has no charge to refund''))]
      (Some 400) (Some corsHeaders),
    (1, [PaymentIntentsRetrieve (JStr ''pi_1'')]))"
  using refund_intent_without_charge
    [where parameters = "JObj [(''payment_intent_id'', JStr ''pi_1'')]"
       and env = "sample_env\<lparr>stripe_paymentIntents_retrieve :=
        (\<lambda>i w. (Inr (JObj [(''id'', i), (''latest_charge'', JNull)]), Suc w))\<rparr>"
       and w = 0 and calls = "[]"
       and paymentIntent = "JObj [(''id'', JStr ''pi_1''), (''latest_charge'', JNull)]"
       and w' = 1]
  by (simp add: sample_env_def)

text \<open>
  C3, as stated, names the field \<^verbatim>\<open>customer_identifier\<close>. The route reads the customer
  identifier from the field \<^verbatim>\<open>customerIdentifier\<close> and no other, so a parameter set
  whose only identifier is \<^verbatim>\<open>customer_identifier\<close> is answered 400 without any lookup,
  even where the customer exists and has charges. And where the field
  \<^verbatim>\<open>customerIdentifier\<close> holds a value whose conversion to text throws, here the object
  \<^verbatim>\<open>{"toString": 1}\<close>, and the lookup finds no customer, building the message of the
  404 throws, and the answer is 500.
\<close>

theorem refund_customer_identifier_counterexample:
  "handleRefundRequest sample_env (JObj [(''customer_identifier'', JStr ''cus_1'')]) (0, []) =
     (NextResponse_json
        [(''error'', Val (JStr ''Please provide either charge_id, payment_intent_id, customerIdentifier, or orderIdentifier''))]
        (Some 400) (Some corsHeaders),
      (0, []))
   \<and> status (fst (handleRefundRequest
         (sample_env\<lparr>lib_findCustomerByIdentifier := (\<lambda>i w. (Inr JNull, Suc w))\<rparr>)
         (JObj [(''customerIdentifier'', JObj [(''toString'', JNum (Fin 1))])]) (0, []))) = 500"
  by (simp add: refund_defs js_or_def sample_env_def NextResponse_json_def)

text \<open>
  C3, amended. When the only identifier given is \<^verbatim>\<open>customerIdentifier\<close> (no
  \<^verbatim>\<open>charge_id\<close>, \<^verbatim>\<open>payment_intent_id\<close> or \<^verbatim>\<open>orderIdentifier\<close>) and the customer lookup
  returns:
  \<^item> if it returns no customer, and the identifier is a string or another value that
    converts to text, the response is 404 and nothing else is invoked;
  \<^item> otherwise the customer's charges are listed with limit 10; if the list is empty the
    response is 404 and no refund is created;
  \<^item> otherwise a refund is created whose charge is the \<^verbatim>\<open>id\<close> of the first element of
    the list, after the lookup and the listing and nothing else, and when the creation
    succeeds, and the ids of the customer and of the charge convert to text, the response
    is the refund with status 200.
\<close>

theorem refund_customerIdentifier_only:
  assumes "\<not> truthy (js_prop parameters ''charge_id'')"
    and "\<not> truthy (js_prop parameters ''payment_intent_id'')"
    and "\<not> truthy (js_prop parameters ''orderIdentifier'')"
    and "truthy (js_prop parameters ''customerIdentifier'')"
    and "lib_findCustomerByIdentifier env (js_prop parameters ''customerIdentifier'') w
           = (Inr customer, w1)"
  shows "(\<not> truthy customer \<and> stringifiable (js_prop parameters ''customerIdentifier'') \<longrightarrow>
          handleRefundRequest env parameters (w, calls) =
            (NextResponse_json
               [(''error'', Tmpl [Lit ''Customer not found: '',
                                 Sub (js_prop parameters ''customerIdentifier'')])]
               (Some 404) (Some corsHeaders),
             (w1, calls @ [FindCustomerByIdentifier (js_prop parameters ''customerIdentifier'')])))
       \<and> (\<forall>charges w2.
            truthy customer \<and>
            stripe_charges_list env \<lparr>ls_customer = js_prop customer ''id'', ls_limit = 10\<rparr> w1
              = (Inr charges, w2) \<and>
            js_prop charges ''data'' = JArr [] \<longrightarrow>
            handleRefundRequest env parameters (w, calls) =
              (NextResponse_json
                 [(''error'', Val (JStr ''No charges found for this customer''))]
                 (Some 404) (Some corsHeaders),
               (w2, calls @ [FindCustomerByIdentifier (js_prop parameters ''customerIdentifier''),
                             ChargesList \<lparr>ls_customer = js_prop customer ''id'',
                                          ls_limit = 10\<rparr>])))
       \<and> (\<forall>charges w2 latestCharge others.
            truthy customer \<and>
            stripe_charges_list env \<lparr>ls_customer = js_prop customer ''id'', ls_limit = 10\<rparr> w1
              = (Inr charges, w2) \<and>
            js_prop charges ''data'' = JArr (latestCharge # others) \<and>
            \<not> nullish latestCharge \<longrightarrow>
            snd (snd (handleRefundRequest env parameters (w, calls))) =
              calls @ [FindCustomerByIdentifier (js_prop parameters ''customerIdentifier''),
                       ChargesList \<lparr>ls_customer = js_prop customer ''id'', ls_limit = 10\<rparr>,
                       RefundsCreate
                         \<lparr>rf_charge = js_prop latestCharge ''id'',
                          rf_amount = js_prop parameters ''amount'',
                          rf_reason = (if truthy (js_prop parameters ''reason'')
                                       then js_prop parameters ''reason''
                                       else JStr ''requested_by_customer''),
                          rf_metadata = (if truthy (js_prop parameters ''metadata'')
                                         then js_prop parameters ''metadata''
                                         else JObj [])\<rparr>])
       \<and> (\<forall>charges w2 latestCharge others refund w3.
            truthy customer \<and>
            stripe_charges_list env \<lparr>ls_customer = js_prop customer ''id'', ls_limit = 10\<rparr> w1
              = (Inr charges, w2) \<and>
            js_prop charges ''data'' = JArr (latestCharge # others) \<and>
            \<not> nullish latestCharge \<and>
            stripe_refunds_create env
              \<lparr>rf_charge = js_prop latestCharge ''id'',
               rf_amount = js_prop parameters ''amount'',
               rf_reason = (if truthy (js_prop parameters ''reason'')
                            then js_prop parameters ''reason''
                            else JStr ''requested_by_customer''),
               rf_metadata = (if truthy (js_prop parameters ''metadata'')
                              then js_prop parameters ''metadata''
                              else JObj [])\<rparr> w2
              = (Inr refund, w3) \<and>
            stringifiable (js_prop customer ''id'') \<and>
            stringifiable (js_prop latestCharge ''id'') \<longrightarrow>
            fst (handleRefundRequest env parameters (w, calls)) =
              NextResponse_json
                 [(''result'', Val refund),
                  (''message'', Tmpl [Lit ''Refund processed for customer '',
                                     Sub (js_prop customer ''id''),
                                     Lit '' on charge '', Sub (js_prop latestCharge ''id'')])]
                 None (Some corsHeaders)
            \<and> fst (snd (handleRefundRequest env parameters (w, calls))) = w3)"
proof -
  note nn = truthy_prop_not_nullish[OF assms(4)]
  have data: "\<not> nullish charges" if "js_prop charges ''data'' = JArr xs" for charges xs
    using that by (cases charges) auto
  show ?thesis
  proof (intro conjI allI impI; (elim conjE)?)
    assume "\<not> truthy customer"
      and "stringifiable (js_prop parameters ''customerIdentifier'')"
    then show "handleRefundRequest env parameters (w, calls) =
            (NextResponse_json
               [(''error'', Tmpl [Lit ''Customer not found: '',
                                 Sub (js_prop parameters ''customerIdentifier'')])]
               (Some 404) (Some corsHeaders),
             (w1, calls @ [FindCustomerByIdentifier (js_prop parameters ''customerIdentifier'')]))"
      using assms nn by (simp add: refund_defs js_or_def split: prod.splits sum.splits)
  next
    fix charges w2
    assume "truthy customer"
      and "stripe_charges_list env \<lparr>ls_customer = js_prop customer ''id'', ls_limit = 10\<rparr> w1
              = (Inr charges, w2)"
      and d: "js_prop charges ''data'' = JArr []"
    then show "handleRefundRequest env parameters (w, calls) =
              (NextResponse_json
                 [(''error'', Val (JStr ''No charges found for this customer''))]
                 (Some 404) (Some corsHeaders),
               (w2, calls @ [FindCustomerByIdentifier (js_prop parameters ''customerIdentifier''),
                             ChargesList \<lparr>ls_customer = js_prop customer ''id'',
                                          ls_limit = 10\<rparr>]))"
      using assms nn data[OF d] by (simp add: refund_defs js_or_def split: prod.splits sum.splits)
  next
    fix charges w2 latestCharge others
    assume "truthy customer"
      and "stripe_charges_list env \<lparr>ls_customer = js_prop customer ''id'', ls_limit = 10\<rparr> w1
              = (Inr charges, w2)"
      and d: "js_prop charges ''data'' = JArr (latestCharge # others)"
      and "\<not> nullish latestCharge"
    then show "snd (snd (handleRefundRequest env parameters (w, calls))) =
              calls @ [FindCustomerByIdentifier (js_prop parameters ''customerIdentifier''),
                       ChargesList \<lparr>ls_customer = js_prop customer ''id'', ls_limit = 10\<rparr>,
                       RefundsCreate
                         \<lparr>rf_charge = js_prop latestCharge ''id'',
                          rf_amount = js_prop parameters ''amount'',
                          rf_reason = (if truthy (js_prop parameters ''reason'')
                                       then js_prop parameters ''reason''
                                       else JStr ''requested_by_customer''),
                          rf_metadata = (if truthy (js_prop parameters ''metadata'')
                                         then js_prop parameters ''metadata''
                                         else JObj [])\<rparr>]"
      using assms nn data[OF d] by (simp add: refund_defs js_or_def split: prod.splits sum.splits)
  next
    fix charges w2 latestCharge others refund w3
    assume a: "truthy customer"
      "stripe_charges_list env \<lparr>ls_customer = js_prop customer ''id'', ls_limit = 10\<rparr> w1
              = (Inr charges, w2)"
      "\<not> nullish latestCharge"
      "stripe_refunds_create env
              \<lparr>rf_charge = js_prop latestCharge ''id'',
               rf_amount = js_prop parameters ''amount'',
               rf_reason = (if truthy (js_prop parameters ''reason'')
                            then js_prop parameters ''reason''
                            else JStr ''requested_by_customer''),
               rf_metadata = (if truthy (js_prop parameters ''metadata'')
                              then js_prop parameters ''metadata''
                              else JObj [])\<rparr> w2
              = (Inr refund, w3)"
      "stringifiable (js_prop customer ''id'')"
      "stringifiable (js_prop latestCharge ''id'')"
      and d: "js_prop charges ''data'' = JArr (latestCharge # others)"
    show "fst (handleRefundRequest env parameters (w, calls)) =
              NextResponse_json
                 [(''result'', Val refund),
                  (''message'', Tmpl [Lit ''Refund processed for customer '',
                                     Sub (js_prop customer ''id''),
                                     Lit '' on charge '', Sub (js_prop latestCharge ''id'')])]
                 None (Some corsHeaders)"
      using assms nn data[OF d] a d
      by (simp add: refund_defs js_or_def split: prod.splits sum.splits)
    show "fst (snd (handleRefundRequest env parameters (w, calls))) = w3"
      using assms nn data[OF d] a d
      by (simp add: refund_defs js_or_def split: prod.splits sum.splits)
  qed
qed

theorem refund_customerIdentifier_only_witness:
  "handleRefundRequest
     (sample_env\<lparr>lib_findCustomerByIdentifier := (\<lambda>i w. (Inr JNull, Suc w))\<rparr>)
     (JObj [(''customerIdentifier'', JStr ''nobody'')]) (0, []) =
     (NextResponse_json
        [(''error'', Tmpl [Lit ''Customer not found: '', Sub (JStr ''nobody'')])]
        (Some 404) (Some corsHeaders),
      (1, [FindCustomerByIdentifier (JStr ''nobody'')]))
   \<and> handleRefundRequest
     (sample_env\<lparr>stripe_charges_list := (\<lambda>a w. (Inr (JObj [(''data'', JArr [])]), Suc w))\<rparr>)
     (JObj [(''customerIdentifier'', JStr ''a@b.c'')]) (0, []) =
     (NextResponse_json
        [(''error'', Val (JStr ''No charges found for this customer''))]
        (Some 404) (Some corsHeaders),
      (2, [FindCustomerByIdentifier (JStr ''a@b.c''),
           ChargesList \<lparr>ls_customer = JStr ''cus_1'', ls_limit = 10\<rparr>]))
   \<and> handleRefundRequest sample_env (JObj [(''customerIdentifier'', JStr ''a@b.c'')]) (0, []) =
     (NextResponse_json
        [(''result'', Val (JObj [(''id'', JStr ''re_1''), (''charge'', JStr ''ch_1'')])),
         (''message'', Tmpl [Lit ''Refund processed for customer '', Sub (JStr ''cus_1''),
                            Lit '' on charge '', Sub (JStr ''ch_1'')])]
        None (Some corsHeaders),
      (3, [FindCustomerByIdentifier (JStr ''a@b.c''),
           ChargesList \<lparr>ls_customer = JStr ''cus_1'', ls_limit = 10\<rparr>,
           RefundsCreate \<lparr>rf_charge = JStr ''ch_1'', rf_amount = JUndefined,
                          rf_reason = JStr ''requested_by_customer'',
                          rf_metadata = JObj []\<rparr>]))"
  using
    refund_customerIdentifier_only
      [where parameters = "JObj [(''customerIdentifier'', JStr ''nobody'')]"
         and env = "sample_env\<lparr>lib_findCustomerByIdentifier := (\<lambda>i w. (Inr JNull, Suc w))\<rparr>"
         and w = 0 and calls = "[]" and customer = JNull and ?w1.0 = 1]
    refund_customerIdentifier_only
      [where parameters = "JObj [(''customerIdentifier'', JStr ''a@b.c'')]"
         and env = "sample_env\<lparr>stripe_charges_list :=
                      (\<lambda>a w. (Inr (JObj [(''data'', JArr [])]), Suc w))\<rparr>"
         and w = 0 and calls = "[]" and customer = "JObj [(''id'', JStr ''cus_1'')]"
         and ?w1.0 = 1]
    refund_customerIdentifier_only
      [where parameters = "JObj [(''customerIdentifier'', JStr ''a@b.c'')]"
         and env = sample_env
         and w = 0 and calls = "[]" and customer = "JObj [(''id'', JStr ''cus_1'')]"
         and ?w1.0 = 1]
  by (simp add: sample_env_def prod_eq_iff)

text \<open>
  C4. When \<^verbatim>\<open>parameters\<close> is a parameter set (not \<^verbatim>\<open>null\<close> or \<^verbatim>\<open>undefined\<close>) that holds
  none of the identifiers the route reads (\<^verbatim>\<open>charge_id\<close>, \<^verbatim>\<open>payment_intent_id\<close>,
  \<^verbatim>\<open>customerIdentifier\<close>, \<^verbatim>\<open>orderIdentifier\<close>), \<^verbatim>\<open>handleRefundRequest\<close> answers 400 with
  a message that lists the four fields, and leaves the state as it was: no capability is
  invoked and the world is unchanged.
\<close>

theorem refund_no_identifier:
  assumes "\<not> nullish parameters"
    and "\<not> truthy (js_prop parameters ''charge_id'')"
    and "\<not> truthy (js_prop parameters ''payment_intent_id'')"
    and "\<not> truthy (js_prop parameters ''customerIdentifier'')"
    and "\<not> truthy (js_prop parameters ''orderIdentifier'')"
  shows "handleRefundRequest env parameters s =
           (NextResponse_json
              [(''error'', Val (JStr ''Please provide either charge_id, payment_intent_id, customerIdentifier, or orderIdentifier''))]
              (Some 400) (Some corsHeaders), s)"
  using assms by (simp add: refund_defs js_or_def)

theorem refund_no_identifier_witness:
  "handleRefundRequest sample_env (JObj [(''amount'', JNum (Fin 500)), (''reason'', JStr ''duplicate'')])
     (7, [FindCustomerByIdentifier JNull]) =
     (NextResponse_json
        [(''error'', Val (JStr ''Please provide either charge_id, payment_intent_id, customerIdentifier, or orderIdentifier''))]
        (Some 400) (Some corsHeaders),
      (7, [FindCustomerByIdentifier JNull]))"
  using refund_no_identifier
    [where parameters = "JObj [(''amount'', JNum (Fin 500)), (''reason'', JStr ''duplicate'')]"
       and env = sample_env and s = "(7, [FindCustomerByIdentifier JNull])"]
  by simp

text \<open>
  C10. When the only identifier given is \<^verbatim>\<open>orderIdentifier\<close> and the payment lookup
  returns \<^verbatim>\<open>null\<close>, \<^verbatim>\<open>handleRefundRequest\<close> falls through to the response for a
  missing identifier: 400 with the message that asks for one of the four fields, not a
  404. The lookup is the only capability invoked.
\<close>

theorem refund_order_lookup_null:
  assumes "\<not> truthy (js_prop parameters ''charge_id'')"
    and "\<not> truthy (js_prop parameters ''payment_intent_id'')"
    and "\<not> truthy (js_prop parameters ''customerIdentifier'')"
    and "truthy (js_prop parameters ''orderIdentifier'')"
    and "lib_findPaymentByIdentifier env (js_prop parameters ''orderIdentifier'') w
           = (Inr JNull, w')"
  shows "handleRefundRequest env parameters (w, calls) =
           (NextResponse_json
              [(''error'', Val (JStr ''Please provide either charge_id, payment_intent_id, customerIdentifier, or orderIdentifier''))]
              (Some 400) (Some corsHeaders),
            (w', calls @ [FindPaymentByIdentifier (js_prop parameters ''orderIdentifier'')]))"
  using assms truthy_prop_not_nullish[OF assms(4)]
  by (simp add: refund_defs js_or_def split: prod.splits sum.splits)

theorem refund_order_lookup_null_witness:
  "handleRefundRequest sample_env (JObj [(''orderIdentifier'', JStr ''ord_1'')]) (0, []) =
     (NextResponse_json
        [(''error'', Val (JStr ''Please provide either charge_id, payment_intent_id, customerIdentifier, or orderIdentifier''))]
        (Some 400) (Some corsHeaders),
      (1, [FindPaymentByIdentifier (JStr ''ord_1'')]))"
  using refund_order_lookup_null
    [where parameters = "JObj [(''orderIdentifier'', JStr ''ord_1'')]"
       and env = sample_env and w = 0 and calls = "[]" and w' = 1]
  by (simp add: sample_env_def)


section \<open>The capture handler\<close>

lemma handleCaptureRequest_without_parameters:
  assumes "nullish parameters"
  shows "handleCaptureRequest env parameters s =
           (NextResponse_json [(''error'', Val (message type_error))]
              (Some 500) (Some corsHeaders), s)"
  using assms by (simp add: capture_defs type_error_def js_or_def)

text \<open>
  The payment-intent id is the first of the four fields, in their order, that counts as
  true.
\<close>

lemma capture_id_found:
  assumes "find truthy (map (js_prop parameters)
             [''payment_intent_id'', ''paymentIntentId'', ''intent_id'', ''id'']) = Some pid"
  shows "paymentIntentId_of parameters = pid \<and> truthy pid"
  using assms by (auto simp add: paymentIntentId_of_def js_or_def split: if_splits)

lemma capture_id_not_found:
  assumes "find truthy (map (js_prop parameters)
             [''payment_intent_id'', ''paymentIntentId'', ''intent_id'', ''id'']) = None"
  shows "\<not> truthy (paymentIntentId_of parameters)"
  using assms by (auto simp add: paymentIntentId_of_def js_or_def split: if_splits)

lemma round_near_150_7:
  assumes "\<bar>q - 1507 / 10\<bar> \<le> (1 / 2 ^ 46 :: rat)"
  shows "round_num (Fin q) = Fin 151" and "q \<noteq> 0"
proof -
  have "(1 / 2 ^ 46 :: rat) \<le> 1 / 10"
    by simp
  then have "\<bar>q - 1507 / 10\<bar> \<le> 1 / 10"
    using assms by (rule order_trans[rotated])
  then have b: "1506 / 10 \<le> q" "q \<le> 1508 / 10"
    by linarith+
  have "151 \<le> q + 1 / 2" "q + 1 / 2 < 152"
    using b by linarith+
  then have "\<lfloor>q + 1 / 2\<rfloor> = 151"
    by (simp add: floor_eq_iff)
  then show "round_num (Fin q) = Fin 151"
    by simp
  show "q \<noteq> 0"
    using b by linarith
qed

lemma truthy_num_not_NaN: "truthy (JNum n) \<Longrightarrow> n \<noteq> NaN"
  by (cases n) auto

text \<open>
  What the handler does with an amount that is a string: the string is converted by
  the runtime, and the rounded number is the amount to capture unless the string is empty
  or the number is 0 or \<^verbatim>\<open>NaN\<close>; then there is no amount, and the capture is a full one.
\<close>

lemma capture_amount_string:
  assumes "truthy (paymentIntentId_of parameters)"
    and "js_prop parameters ''amount'' = JStr s"
  shows "handleCaptureRequest env parameters (w, calls) =
     (let n = runtime_StringToNumber env s;
          p = (if s \<noteq> [] \<and> truthy (JNum n) then Some (round_num n) else None)
      in case stripe_paymentIntents_capture env (paymentIntentId_of parameters) p w of
           (Inl e, w') \<Rightarrow>
             (NextResponse_json
                [(''error'', Val (js_or (message e) (JStr ''Failed to capture payment intent'')))]
                (Some 500) (Some corsHeaders),
              (w', calls @ [PaymentIntentsCapture (paymentIntentId_of parameters) p]))
         | (Inr captured, w') \<Rightarrow>
             (NextResponse_json [(''result'', Val captured)] None (Some corsHeaders),
              (w', calls @ [PaymentIntentsCapture (paymentIntentId_of parameters) p])))"
proof -
  have nn: "\<not> nullish parameters"
    using assms(2) by (cases parameters) auto
  show ?thesis
    using assms nn truthy_num_not_NaN
    by (simp add: capture_defs Number_isNaN_def split: prod.splits sum.splits)
qed

lemma capture_with_id:
  assumes "\<not> nullish parameters" and "truthy (paymentIntentId_of parameters)"
    and "stringifiable (js_prop parameters ''amount'')"
  shows "\<exists>p. snd (snd (handleCaptureRequest env parameters (w, calls))) =
               calls @ [PaymentIntentsCapture (paymentIntentId_of parameters) p]"
  using assms by (simp add: capture_defs split: prod.splits sum.splits)

lemma capture_amount_throws:
  assumes "\<not> nullish parameters" and "truthy (paymentIntentId_of parameters)"
    and "\<not> stringifiable (js_prop parameters ''amount'')"
  shows "handleCaptureRequest env parameters s =
           (NextResponse_json [(''error'', Val (message type_error))]
              (Some 500) (Some corsHeaders), s)"
  using assms not_stringifiable[OF assms(3)]
  by (simp add: capture_defs type_error_def js_or_def)

lemma capture_without_id:
  assumes "\<not> nullish parameters" and "\<not> truthy (paymentIntentId_of parameters)"
  shows "handleCaptureRequest env parameters s =
           (NextResponse_json
              [(''error'', Val (JStr ''payment_intent_id is required to capture a payment''))]
              (Some 400) (Some corsHeaders), s)"
  using assms by (simp add: capture_defs)

lemma POST_capture_alias:
  assumes "truthy (STRIPE_SECRET_KEY env)"
    and "js_prop req_body ''toolName'' = JStr ''paymentIntents_capture''"
  shows "POST env (Inr req_body) s = handleCaptureRequest env (js_prop req_body ''parameters'') s"
proof -
  have "\<not> nullish req_body"
    using assms(2) by (cases req_body) auto
  then show ?thesis
    using assms by (simp add: POST_def POST_try_def run_defs Let_def split: prod.splits sum.splits)
qed

text \<open>
  C7. A request for the tool \<^verbatim>\<open>paymentIntents_capture\<close> is handled by
  \<^verbatim>\<open>handleCaptureRequest\<close>. When its parameters give a payment-intent id \<open>pid\<close> (the
  first of the four alias fields that counts as true) and give the amount as a string:
  \<^item> for the string \<^verbatim>\<open>150.7\<close>, which the runtime converts to the double nearest to
    150.7, a number within \<open>2\<^sup>-\<^sup>4\<^sup>6\<close> of it, the one capability invoked is the capture of
    \<open>pid\<close> with the amount to capture 151;
  \<^item> for a string that the runtime does not parse as a number (its conversion is
    \<^verbatim>\<open>NaN\<close>) the one capability invoked is the capture of \<open>pid\<close> with no amount, a
    full capture, and when the capture succeeds the response is its result with status
    200.
\<close>

theorem capture_amount_rounded:
  assumes "truthy (STRIPE_SECRET_KEY env)"
    and "js_prop req_body ''toolName'' = JStr ''paymentIntents_capture''"
    and "js_prop req_body ''parameters'' = parameters"
    and "find truthy (map (js_prop parameters)
           [''payment_intent_id'', ''paymentIntentId'', ''intent_id'', ''id'']) = Some pid"
    and "js_prop parameters ''amount'' = JStr s"
  shows "POST env (Inr req_body) (w, calls) = handleCaptureRequest env parameters (w, calls)
       \<and> (\<forall>q. s = ''150.7'' \<and> runtime_StringToNumber env ''150.7'' = Fin q \<and>
               \<bar>q - 1507 / 10\<bar> \<le> 1 / 2 ^ 46 \<longrightarrow>
            snd (snd (handleCaptureRequest env parameters (w, calls))) =
              calls @ [PaymentIntentsCapture pid (Some (Fin 151))])
       \<and> (runtime_StringToNumber env s = NaN \<longrightarrow>
            snd (snd (handleCaptureRequest env parameters (w, calls))) =
              calls @ [PaymentIntentsCapture pid None]
            \<and> (\<forall>captured w'.
                 stripe_paymentIntents_capture env pid None w = (Inr captured, w') \<longrightarrow>
                 handleCaptureRequest env parameters (w, calls) =
                   (NextResponse_json [(''result'', Val captured)] None (Some corsHeaders),
                    (w', calls @ [PaymentIntentsCapture pid None]))))"
proof -
  have id: "paymentIntentId_of parameters = pid" "truthy pid"
    using capture_id_found[OF assms(4)] by simp_all
  have run: "handleCaptureRequest env parameters (w, calls) =
     (let n = runtime_StringToNumber env s;
          p = (if s \<noteq> [] \<and> truthy (JNum n) then Some (round_num n) else None)
      in case stripe_paymentIntents_capture env pid p w of
           (Inl e, w') \<Rightarrow>
             (NextResponse_json
                [(''error'', Val (js_or (message e) (JStr ''Failed to capture payment intent'')))]
                (Some 500) (Some corsHeaders),
              (w', calls @ [PaymentIntentsCapture pid p]))
         | (Inr captured, w') \<Rightarrow>
             (NextResponse_json [(''result'', Val captured)] None (Some corsHeaders),
              (w', calls @ [PaymentIntentsCapture pid p])))"
    using capture_amount_string[of parameters s env w calls, unfolded id(1)] id(2) assms(5)
    by simp
  show ?thesis
  proof (intro conjI impI allI; (elim conjE)?)
    show "POST env (Inr req_body) (w, calls) = handleCaptureRequest env parameters (w, calls)"
      using POST_capture_alias[OF assms(1,2)] assms(3) by simp
  next
    fix q
    assume "s = ''150.7''" and "runtime_StringToNumber env ''150.7'' = Fin q"
      and "\<bar>q - 1507 / 10\<bar> \<le> 1 / 2 ^ 46"
    then show "snd (snd (handleCaptureRequest env parameters (w, calls))) =
        calls @ [PaymentIntentsCapture pid (Some (Fin 151))]"
      using run round_near_150_7[of q]
      by (simp add: Let_def split: prod.splits sum.splits)
  next
    assume "runtime_StringToNumber env s = NaN"
    then show "snd (snd (handleCaptureRequest env parameters (w, calls))) =
        calls @ [PaymentIntentsCapture pid None]"
      using run by (simp add: Let_def split: prod.splits sum.splits)
  next
    fix captured w'
    assume "runtime_StringToNumber env s = NaN"
      and "stripe_paymentIntents_capture env pid None w = (Inr captured, w')"
    then show "handleCaptureRequest env parameters (w, calls) =
        (NextResponse_json [(''result'', Val captured)] None (Some corsHeaders),
         (w', calls @ [PaymentIntentsCapture pid None]))"
      using run by (simp add: Let_def)
  qed
qed

theorem capture_amount_rounded_witness:
  "POST sample_env
     (Inr (JObj [(''toolName'', JStr ''paymentIntents_capture''),
                 (''parameters'', JObj [(''payment_intent_id'', JStr ''pi_7''),
                                       (''amount'', JStr ''150.7'')])])) (0, [])
     = handleCaptureRequest sample_env
         (JObj [(''payment_intent_id'', JStr ''pi_7''), (''amount'', JStr ''150.7'')]) (0, [])
   \<and> snd (snd (handleCaptureRequest sample_env
         (JObj [(''payment_intent_id'', JStr ''pi_7''), (''amount'', JStr ''150.7'')]) (0, [])))
     = [PaymentIntentsCapture (JStr ''pi_7'') (Some (Fin 151))]
   \<and> handleCaptureRequest sample_env
         (JObj [(''payment_intent_id'', JStr ''pi_7''), (''amount'', JStr ''lots'')]) (0, [])
     = (NextResponse_json
          [(''result'', Val (JObj [(''id'', JStr ''pi_7''), (''status'', JStr ''succeeded'')]))]
          None (Some corsHeaders),
        (1, [PaymentIntentsCapture (JStr ''pi_7'') None]))"
proof -
  have key: "truthy (STRIPE_SECRET_KEY sample_env)"
    by (simp add: sample_env_def)
  have conv: "runtime_StringToNumber sample_env ''150.7''
                = Fin (5302284873786982 / 35184372088832)"
    by (simp add: sample_env_def sample_StringToNumber_def)
  have near: "\<bar>5302284873786982 / 35184372088832 - 1507 / 10\<bar> \<le> (1 / 2 ^ 46 :: rat)"
    by (simp add: abs_le_iff)
  have nan: "runtime_StringToNumber sample_env ''lots'' = NaN"
    by (simp add: sample_env_def sample_StringToNumber_def)
  have cap: "stripe_paymentIntents_capture sample_env (JStr ''pi_7'') None 0
               = (Inr (JObj [(''id'', JStr ''pi_7''), (''status'', JStr ''succeeded'')]), 1)"
    by (simp add: sample_env_def)
  let ?p1 = "JObj [(''payment_intent_id'', JStr ''pi_7''), (''amount'', JStr ''150.7'')]"
  let ?p2 = "JObj [(''payment_intent_id'', JStr ''pi_7''), (''amount'', JStr ''lots'')]"
  let ?b1 = "JObj [(''toolName'', JStr ''paymentIntents_capture''), (''parameters'', ?p1)]"
  let ?b2 = "JObj [(''toolName'', JStr ''paymentIntents_capture''), (''parameters'', ?p2)]"
  have t1: "js_prop ?b1 ''toolName'' = JStr ''paymentIntents_capture''"
    and q1: "js_prop ?b1 ''parameters'' = ?p1"
    and f1: "find truthy (map (js_prop ?p1)
               [''payment_intent_id'', ''paymentIntentId'', ''intent_id'', ''id''])
             = Some (JStr ''pi_7'')"
    and m1: "js_prop ?p1 ''amount'' = JStr ''150.7''"
    by simp_all
  have t2: "js_prop ?b2 ''toolName'' = JStr ''paymentIntents_capture''"
    and q2: "js_prop ?b2 ''parameters'' = ?p2"
    and f2: "find truthy (map (js_prop ?p2)
               [''payment_intent_id'', ''paymentIntentId'', ''intent_id'', ''id''])
             = Some (JStr ''pi_7'')"
    and m2: "js_prop ?p2 ''amount'' = JStr ''lots''"
    by simp_all
  note a = capture_amount_rounded[OF key t1 q1 f1 m1, of 0 "[]"]
  note b = capture_amount_rounded[OF key t2 q2 f2 m2, of 0 "[]"]
  have "POST sample_env (Inr ?b1) (0, []) = handleCaptureRequest sample_env ?p1 (0, [])"
    by (rule a[THEN conjunct1])
  moreover have "snd (snd (handleCaptureRequest sample_env ?p1 (0, [])))
      = [PaymentIntentsCapture (JStr ''pi_7'') (Some (Fin 151))]"
    using a[THEN conjunct2, THEN conjunct1, rule_format, OF conjI[OF refl conjI[OF conv near]]]
    by simp
  moreover have "handleCaptureRequest sample_env ?p2 (0, [])
     = (NextResponse_json
          [(''result'', Val (JObj [(''id'', JStr ''pi_7''), (''status'', JStr ''succeeded'')]))]
          None (Some corsHeaders),
        (1, [PaymentIntentsCapture (JStr ''pi_7'') None]))"
    using b[THEN conjunct2, THEN conjunct2, rule_format, OF nan, THEN conjunct2,
            rule_format, OF cap]
    by simp
  ultimately show ?thesis
    by simp
qed

text \<open>
  C8. For a parameter set (not \<^verbatim>\<open>null\<close> or \<^verbatim>\<open>undefined\<close>), the payment-intent id of
  \<^verbatim>\<open>handleCaptureRequest\<close> is the first value that counts as true (for a string: the
  first non-empty one) among the fields \<^verbatim>\<open>payment_intent_id\<close>, \<^verbatim>\<open>paymentIntentId\<close>,
  \<^verbatim>\<open>intent_id\<close> and \<^verbatim>\<open>id\<close>, in that order.
  \<^item> If there is one, the capture of that payment intent is the one capability invoked,
    provided that converting the amount does not throw; if it throws (an amount such as
    the object \<^verbatim>\<open>{"toString": 1}\<close>), the response is 500 and nothing is captured.
  \<^item> If there is none, whatever other fields the parameters hold, the response is 400 and
    the state is as it was: no capture.
\<close>

theorem capture_id_aliases:
  assumes "\<not> nullish parameters"
  shows "(\<forall>pid. find truthy (map (js_prop parameters)
                   [''payment_intent_id'', ''paymentIntentId'', ''intent_id'', ''id''])
                = Some pid \<and>
              stringifiable (js_prop parameters ''amount'') \<longrightarrow>
            (\<exists>p. snd (snd (handleCaptureRequest env parameters (w, calls))) =
               calls @ [PaymentIntentsCapture pid p]))
       \<and> (\<forall>pid. find truthy (map (js_prop parameters)
                   [''payment_intent_id'', ''paymentIntentId'', ''intent_id'', ''id''])
                = Some pid \<and>
              \<not> stringifiable (js_prop parameters ''amount'') \<longrightarrow>
            status (fst (handleCaptureRequest env parameters (w, calls))) = 500
            \<and> snd (handleCaptureRequest env parameters (w, calls)) = (w, calls))
       \<and> (find truthy (map (js_prop parameters)
                   [''payment_intent_id'', ''paymentIntentId'', ''intent_id'', ''id''])
              = None \<longrightarrow>
            handleCaptureRequest env parameters (w, calls) =
              (NextResponse_json
                 [(''error'', Val (JStr ''payment_intent_id is required to capture a payment''))]
                 (Some 400) (Some corsHeaders), (w, calls)))"
proof (intro conjI impI allI; (elim conjE)?)
  fix pid
  assume f: "find truthy (map (js_prop parameters)
                   [''payment_intent_id'', ''paymentIntentId'', ''intent_id'', ''id''])
                = Some pid"
    and s: "stringifiable (js_prop parameters ''amount'')"
  have id: "paymentIntentId_of parameters = pid" "truthy (paymentIntentId_of parameters)"
    using capture_id_found[OF f] by simp_all
  show "\<exists>p. snd (snd (handleCaptureRequest env parameters (w, calls))) =
               calls @ [PaymentIntentsCapture pid p]"
    using capture_with_id[OF assms id(2) s, of env w calls] id(1) by simp
next
  fix pid
  assume f: "find truthy (map (js_prop parameters)
                   [''payment_intent_id'', ''paymentIntentId'', ''intent_id'', ''id''])
                = Some pid"
    and s: "\<not> stringifiable (js_prop parameters ''amount'')"
  have id: "truthy (paymentIntentId_of parameters)"
    using capture_id_found[OF f] by simp
  show "status (fst (handleCaptureRequest env parameters (w, calls))) = 500"
    using capture_amount_throws[OF assms id s, of env "(w, calls)"]
    by (simp add: NextResponse_json_def)
  show "snd (handleCaptureRequest env parameters (w, calls)) = (w, calls)"
    using capture_amount_throws[OF assms id s, of env "(w, calls)"] by simp
next
  assume "find truthy (map (js_prop parameters)
                   [''payment_intent_id'', ''paymentIntentId'', ''intent_id'', ''id''])
              = None"
  then show "handleCaptureRequest env parameters (w, calls) =
              (NextResponse_json
                 [(''error'', Val (JStr ''payment_intent_id is required to capture a payment''))]
                 (Some 400) (Some corsHeaders), (w, calls))"
    using capture_without_id[OF assms] capture_id_not_found by blast
qed

theorem capture_id_aliases_witness:
  "(\<exists>p. snd (snd (handleCaptureRequest sample_env
          (JObj [(''payment_intent_id'', JStr []), (''intent_id'', JStr ''pi_2''),
                 (''id'', JStr ''pi_3'')]) (0, [])))
        = [PaymentIntentsCapture (JStr ''pi_2'') p])
   \<and> status (fst (handleCaptureRequest sample_env
          (JObj [(''id'', JStr ''pi_3''),
                 (''amount'', JObj [(''toString'', JNum (Fin 1))])]) (0, []))) = 500
   \<and> snd (handleCaptureRequest sample_env
          (JObj [(''id'', JStr ''pi_3''),
                 (''amount'', JObj [(''toString'', JNum (Fin 1))])]) (0, [])) = (0, [])
   \<and> handleCaptureRequest sample_env (JObj [(''payment_intent'', JStr ''pi_1'')]) (0, []) =
       (NextResponse_json
          [(''error'', Val (JStr ''payment_intent_id is required to capture a payment''))]
          (Some 400) (Some corsHeaders), (0, []))"
  using
    capture_id_aliases
      [where parameters = "JObj [(''payment_intent_id'', JStr []), (''intent_id'', JStr ''pi_2''),
                                 (''id'', JStr ''pi_3'')]"
         and env = sample_env and w = 0 and calls = "[]"]
    capture_id_aliases
      [where parameters = "JObj [(''id'', JStr ''pi_3''),
                                 (''amount'', JObj [(''toString'', JNum (Fin 1))])]"
         and env = sample_env and w = 0 and calls = "[]"]
    capture_id_aliases
      [where parameters = "JObj [(''payment_intent'', JStr ''pi_1'')]"
         and env = sample_env and w = 0 and calls = "[]"]
  by simp


section \<open>The dispatcher\<close>

text \<open>
  C5, as stated, fails in two ways. A tool name that contains both \<^verbatim>\<open>refund\<close> and
  \<^verbatim>\<open>capture\<close> goes to the refund handler, whose test comes first: for
  \<^verbatim>\<open>refund_capture\<close> the payment intent is retrieved and its charge refunded, and nothing
  is captured. And a tool name that the catalog holds is executed from the catalog.
\<close>

theorem dispatch_capture_counterexample:
  "includes_str ''refund_capture'' ''capture''
   \<and> POST sample_env
       (Inr (JObj [(''toolName'', JStr ''refund_capture''),
                   (''parameters'', JObj [(''payment_intent_id'', JStr ''pi_1'')])])) (0, [])
     = handleRefundRequest sample_env (JObj [(''payment_intent_id'', JStr ''pi_1'')]) (0, [])
   \<and> snd (snd (POST sample_env
       (Inr (JObj [(''toolName'', JStr ''refund_capture''),
                   (''parameters'', JObj [(''payment_intent_id'', JStr ''pi_1'')])])) (0, [])))
     = [PaymentIntentsRetrieve (JStr ''pi_1''),
        RefundsCreate \<lparr>rf_charge = JStr ''ch_9'', rf_amount = JUndefined,
                       rf_reason = JStr ''requested_by_customer'', rf_metadata = JObj []\<rparr>]
   \<and> snd (snd (handleCaptureRequest sample_env
                  (JObj [(''payment_intent_id'', JStr ''pi_1'')]) (0, [])))
     = [PaymentIntentsCapture (JStr ''pi_1'') None]
   \<and> includes_str ''capture_funds'' ''capture''
   \<and> snd (snd (POST (sample_env\<lparr>toolkit_getTools := [JObj [(''name'', JStr ''capture_funds'')]]\<rparr>)
       (Inr (JObj [(''toolName'', JStr ''capture_funds''),
                   (''parameters'', JObj [(''payment_intent_id'', JStr ''pi_1'')])])) (0, [])))
     = [HandleToolCall \<lparr>tc_id = 0, tc_name = JStr ''capture_funds'',
                         tc_arguments = JObj [(''payment_intent_id'', JStr ''pi_1'')]\<rparr>]"
  by (simp add: POST_def POST_try_def refund_defs capture_defs sample_env_def
      js_or_def paymentIntentId_of_def Number_isNaN_def)

text \<open>
  C5, amended. With the secret key configured, a tool name that contains \<^verbatim>\<open>capture\<close>,
  does not contain \<^verbatim>\<open>refund\<close> and is not the name of a tool in the catalog is handled
  by \<^verbatim>\<open>handleCaptureRequest\<close>, whether or not it is one of the capture aliases: the
  response and the state of \<^verbatim>\<open>POST\<close> are those of the capture handler on the request's
  parameters.
\<close>

theorem dispatch_capture_fallback:
  assumes "truthy (STRIPE_SECRET_KEY env)"
    and "js_prop req_body ''toolName'' = JStr t"
    and "includes_str t ''capture''"
    and "\<not> includes_str t ''refund''"
    and "\<forall>tool \<in> set (toolkit_getTools env). \<not> strict_eq (js_prop tool ''name'') (JStr t)"
  shows "POST env (Inr req_body) s = handleCaptureRequest env (js_prop req_body ''parameters'') s"
proof -
  have nn: "\<not> nullish req_body"
    using assms(2) by (cases req_body) auto
  have ne: "t \<noteq> []"
    using assms(3) by auto
  have nr: "t \<noteq> ''refunds_create''" "t \<noteq> ''create_refund''" "t \<noteq> ''stripe_refunds_create''"
    using assms(4) by auto
  have fn: "find (\<lambda>tool. strict_eq (js_prop tool ''name'') (JStr t)) (toolkit_getTools env) = None"
    using assms(5) by (rule find_None)
  show ?thesis
    using assms(1-4) nn ne nr fn
    by (simp add: POST_def POST_try_def run_defs Let_def split: prod.splits sum.splits)
qed

theorem dispatch_capture_fallback_witness:
  "POST (sample_env\<lparr>toolkit_getTools := [JObj [(''name'', JStr ''create_refund'')]]\<rparr>)
     (Inr (JObj [(''toolName'', JStr ''capture_funds''),
                 (''parameters'', JObj [(''id'', JStr ''pi_1'')])])) (0, [])
   = handleCaptureRequest (sample_env\<lparr>toolkit_getTools := [JObj [(''name'', JStr ''create_refund'')]]\<rparr>)
       (JObj [(''id'', JStr ''pi_1'')]) (0, [])"
  using dispatch_capture_fallback
    [where env = "sample_env\<lparr>toolkit_getTools := [JObj [(''name'', JStr ''create_refund'')]]\<rparr>"
       and req_body = "JObj [(''toolName'', JStr ''capture_funds''),
                             (''parameters'', JObj [(''id'', JStr ''pi_1'')])]"
       and t = "''capture_funds''" and s = "(0, [])"]
  by (simp add: sample_env_def)


section \<open>Response headers\<close>

lemma results_ret: "P r \<Longrightarrow> all_results P (ret r)"
  by (simp add: all_results_def ret_def)

lemma results_throw: "all_results P (throw e)"
  by (simp add: all_results_def throw_def)

lemma results_await: "(\<And>x. all_results P (f x)) \<Longrightarrow> all_results P (await m f)"
  by (auto simp: all_results_def await_def split: prod.splits sum.splits)

lemma results_template:
  "all_results P (f (Tmpl parts)) \<Longrightarrow> all_results P (await (template parts) f)"
  by (simp add: all_results_def await_def template_def ret_def throw_def)

lemma results_if:
  "(c \<Longrightarrow> all_results P a) \<Longrightarrow> (\<not> c \<Longrightarrow> all_results P b) \<Longrightarrow>
   all_results P (if c then a else b)"
  by simp

lemma results_returning:
  assumes "\<And>s. P (fst (h s))"
  shows "all_results P (returning h)"
  unfolding all_results_def
proof (intro allI impI)
  fix s r s'
  assume "returning h s = (Inr r, s')"
  then have "r = fst (h s)"
    by (simp add: returning_def split: prod.splits)
  then show "P r"
    using assms by simp
qed

lemma results_try_catch:
  assumes "all_results P m" and "\<And>e. P (h e)"
  shows "P (fst (try_catch m h s))"
proof -
  obtain r s' where ms: "m s = (r, s')"
    by (cases "m s")
  show ?thesis
  proof (cases r)
    case (Inl e)
    then show ?thesis
      using ms assms(2) by (simp add: try_catch_def)
  next
    case (Inr x)
    then have "P x"
      using assms(1) ms unfolding all_results_def by blast
    then show ?thesis
      using ms Inr by (simp add: try_catch_def)
  qed
qed

lemma has_cors_json: "has_cors (NextResponse_json b st (Some corsHeaders))"
  by (simp add: has_cors_def NextResponse_json_def)

text \<open>Every response of the two handlers carries the cross-origin headers.\<close>

lemma handleRefundRequest_try_cors:
  "all_results has_cors (handleRefundRequest_try env parameters)"
  unfolding handleRefundRequest_try_def Let_def
  by (intro results_if results_template results_await results_ret results_throw has_cors_json)

lemma handleRefundRequest_cors: "has_cors (fst (handleRefundRequest env parameters s))"
  unfolding handleRefundRequest_def
  by (rule results_try_catch[OF handleRefundRequest_try_cors]) (rule has_cors_json)

lemma handleCaptureRequest_try_cors:
  "all_results has_cors (handleCaptureRequest_try env parameters)"
  unfolding handleCaptureRequest_try_def Let_def
  by (intro results_if results_await results_ret results_throw has_cors_json)

lemma handleCaptureRequest_cors: "has_cors (fst (handleCaptureRequest env parameters s))"
  unfolding handleCaptureRequest_def
  by (rule results_try_catch[OF handleCaptureRequest_try_cors]) (rule has_cors_json)

lemma cors_or_tool_not_found_cors: "has_cors r \<Longrightarrow> cors_or_tool_not_found r"
  by (simp add: cors_or_tool_not_found_def)

lemma cors_or_tool_not_found_404:
  "cors_or_tool_not_found
     (NextResponse_json [(''error'', Tmpl [Lit ''Tool '', Sub toolName, Lit '' not found''])]
        (Some 404) None)"
  unfolding cors_or_tool_not_found_def by blast

lemma POST_try_headers: "all_results cors_or_tool_not_found (POST_try env request)"
  unfolding POST_try_def Let_def
  by (intro results_if results_template results_await results_ret results_throw
      results_returning cors_or_tool_not_found_404 cors_or_tool_not_found_cors has_cors_json
      handleRefundRequest_cors handleCaptureRequest_cors)

text \<open>
  Every response of \<^verbatim>\<open>POST\<close> carries the cross-origin headers, except the response for a
  tool that is not found.
\<close>

lemma POST_headers: "cors_or_tool_not_found (fst (POST env request s))"
  unfolding POST_def
  by (rule results_try_catch[OF POST_try_headers])
    (intro cors_or_tool_not_found_cors has_cors_json)

text \<open>
  C6. The response for a tool that is not found is built without headers. For the tool
  name \<^verbatim>\<open>list_invoices\<close>, which is no alias, is not in the catalog and contains neither
  \<^verbatim>\<open>refund\<close> nor \<^verbatim>\<open>capture\<close>, \<^verbatim>\<open>POST\<close> answers 404 with an error and no header at all,
  so without the cross-origin headers that every other response carries.
\<close>

theorem post_tool_not_found_without_cors:
  "POST sample_env
     (Inr (JObj [(''toolName'', JStr ''list_invoices''), (''parameters'', JObj [])])) (0, []) =
     (\<lparr>status = 404, headers = [],
       body = [(''error'', Tmpl [Lit ''Tool '', Sub (JStr ''list_invoices''),
                                Lit '' not found''])]\<rparr>,
      (0, []))
   \<and> \<not> has_cors (fst (POST sample_env
     (Inr (JObj [(''toolName'', JStr ''list_invoices''), (''parameters'', JObj [])])) (0, [])))"
  by (simp add: POST_def POST_try_def run_defs Let_def sample_env_def NextResponse_json_def
      has_cors_def corsHeaders_def)


section \<open>The status badge\<close>

text \<open>
  A status that is neither a key of the colour table nor a member of
  \<^verbatim>\<open>Object.prototype\<close> is rendered with the class of \<^verbatim>\<open>pending\<close>, on both pages.
\<close>

lemma getStatusBadge_unknown:
  assumes "st \<notin> set (map fst statusColors)" and "st \<notin> set Object_prototype_members"
  shows "className (getStatusBadge st) =
     [Text ''inline-flex items-center rounded-full px-2 py-1 text-xs font-medium '',
      Interp (Own ''bg-yellow-100 text-yellow-800 dark:bg-yellow-900/20 dark:text-yellow-300'')]"
proof -
  have "map_of statusColors st = None"
    using assms(1) by (simp add: map_of_eq_None_iff)
  then have "lookup_literal statusColors st = Missing"
    using assms(2) by (simp add: lookup_literal_def)
  moreover have "lookup_literal statusColors ''pending'' =
      Own ''bg-yellow-100 text-yellow-800 dark:bg-yellow-900/20 dark:text-yellow-300''"
    by (simp add: lookup_literal_def statusColors_def)
  ultimately show ?thesis
    by (simp add: getStatusBadge_def)
qed

lemma getStatusBadge_detail_unknown:
  assumes "st \<notin> set (map fst statusColors_detail)" and "st \<notin> set Object_prototype_members"
  shows "className (getStatusBadge_detail st) =
     [Text ''inline-flex items-center rounded-full px-2 py-1 text-xs font-medium '',
      Interp (Own ''bg-yellow-100 text-yellow-800 dark:bg-yellow-900/20 dark:text-yellow-300'')]"
proof -
  have "map_of statusColors_detail st = None"
    using assms(1) by (simp add: map_of_eq_None_iff)
  then have "lookup_literal statusColors_detail st = Missing"
    using assms(2) by (simp add: lookup_literal_def)
  moreover have "lookup_literal statusColors_detail ''pending'' =
      Own ''bg-yellow-100 text-yellow-800 dark:bg-yellow-900/20 dark:text-yellow-300''"
    by (simp add: lookup_literal_def statusColors_detail_def)
  ultimately show ?thesis
    by (simp add: getStatusBadge_detail_def)
qed

text \<open>
  C9. The status \<^verbatim>\<open>constructor\<close> is not in the known set of either page, yet neither page
  renders it with the class of \<^verbatim>\<open>pending\<close>: the lookup in the colour table finds the
  member that the table inherits from \<^verbatim>\<open>Object.prototype\<close>, a function, which counts as
  true and is interpolated into the class name in place of a colour class. The badge is
  still rendered, and nothing is thrown.
\<close>

theorem status_badge_inherited_member:
  "''constructor'' \<notin> set (map fst statusColors)
   \<and> ''constructor'' \<notin> set (map fst statusColors_detail)
   \<and> getStatusBadge ''constructor'' =
       \<lparr>className =
          [Text ''inline-flex items-center rounded-full px-2 py-1 text-xs font-medium '',
           Interp (Inherited ''constructor'')],
        children = ''constructor''\<rparr>
   \<and> getStatusBadge_detail ''constructor'' =
       \<lparr>className =
          [Text ''inline-flex items-center rounded-full px-2 py-1 text-xs font-medium '',
           Interp (Inherited ''constructor'')],
        children = ''constructor''\<rparr>"
  by (simp add: getStatusBadge_def getStatusBadge_detail_def lookup_literal_def
      statusColors_def statusColors_detail_def Object_prototype_members_def)

end
